theory Spec2Isabelle
  imports Main
begin

section \<open>Demography of persons: activity and durations (grimoirelib/demography.py)\<close>

subsection \<open>Errors\<close>

text \<open>
  The module raises plain \<^verbatim>\<open>Exception\<close> objects carrying a message. Two more Python
  errors can arise from the way the code is written: reading an attribute that was never
  assigned (\<^verbatim>\<open>AttributeError\<close>) and returning a local variable that no branch
  assigned (\<^verbatim>\<open>UnboundLocalError\<close>). \<open>EmptyDomainError\<close> is the failure of
  \<^verbatim>\<open>maxend()\<close> on an empty activity list.
\<close>

datatype error =
    Exception string
  | AttributeError string
  | UnboundLocalError string
  | EmptyDomainError

subsection \<open>Activity lists\<close>

text \<open>
  A \<^verbatim>\<open>datetime\<close> is a point on the time line and a \<^verbatim>\<open>timedelta\<close> a signed
  distance between two of them; both are integers (a number of microseconds).
\<close>

type_synonym date = int
type_synonym duration = int

text \<open>
  An activity list maps each person to the ascending sequence of the timestamps of their
  contributions. It is kept as an association list, in the order the query produced it.
\<close>

type_synonym 'p ActivityList = "('p \<times> date list) list"

text \<open>
  Modelled from the spec: the window of \<^verbatim>\<open>ActivityList.active\<close>, which is not part
  of the sources. A timestamp \<open>ts\<close> is inside when \<open>after \<le> ts\<close> (if \<open>after\<close> is
  given) and \<open>ts < before\<close> (if \<open>before\<close> is given); a bound left out is no bound.
\<close>

definition in_window :: "date option \<Rightarrow> date option \<Rightarrow> date \<Rightarrow> bool" where
  "in_window t_after t_before ts \<longleftrightarrow>
     (case t_after of None \<Rightarrow> True | Some a \<Rightarrow> a \<le> ts) \<and>
     (case t_before of None \<Rightarrow> True | Some b \<Rightarrow> ts < b)"

text \<open>
  Modelled from the spec: the class \<^verbatim>\<open>ActivityList\<close> (module \<^verbatim>\<open>scm_query\<close>) is not
  part of the sources. \<^verbatim>\<open>active(after, before)\<close> returns a new list holding only the
  persons with at least one timestamp \<open>ts\<close> such that \<open>after \<le> ts\<close> (when
  \<open>after\<close> is given) and \<open>ts < before\<close> (when \<open>before\<close> is given).
\<close>

definition active :: "'p ActivityList \<Rightarrow> date option \<Rightarrow> date option \<Rightarrow> 'p ActivityList" where
  "active L t_after t_before =
     filter (\<lambda>(p, tss). \<exists>ts \<in> set tss. in_window t_after t_before ts) L"

text \<open>
  Modelled from the spec: \<^verbatim>\<open>ActivityList.age(date)\<close> gives, for every person of the
  list, \<open>date\<close> minus the earliest timestamp of that person.
\<close>

definition age :: "'p ActivityList \<Rightarrow> date \<Rightarrow> ('p \<times> duration) list" where
  "age L d = map (\<lambda>(p, tss). (p, d - Min (set tss))) L"

text \<open>
  Modelled from the spec: \<^verbatim>\<open>ActivityList.idle(date)\<close> gives, for every person of the
  list, \<open>date\<close> minus the latest timestamp of that person.
\<close>

definition idle :: "'p ActivityList \<Rightarrow> date \<Rightarrow> ('p \<times> duration) list" where
  "idle L d = map (\<lambda>(p, tss). (p, d - Max (set tss))) L"

text \<open>
  Modelled from the spec: \<^verbatim>\<open>ActivityList.maxend()\<close> is the latest timestamp across all
  persons and all their events; it fails with an empty-domain error if the list is empty.
\<close>

definition maxend :: "'p ActivityList \<Rightarrow> error + date" where
  "maxend L = (if L = [] then Inl EmptyDomainError else Inr (Max (set (concat (map snd L)))))"

subsection \<open>DurationPersons\<close>

record 'p DurationPersons =
  activity :: "'p ActivityList"
  var :: string
  snapshot :: "date option"

text \<open>\<^verbatim>\<open>set_snapshot(self, time)\<close>: \<^verbatim>\<open>self.snapshot = time\<close>.\<close>

definition set_snapshot :: "'p DurationPersons \<Rightarrow> date \<Rightarrow> 'p DurationPersons" where
  "set_snapshot self time = self\<lparr>snapshot := Some time\<rparr>"

text \<open>\<^verbatim>\<open>set_activity(self, activity)\<close>: \<^verbatim>\<open>self.activity = activity\<close>.\<close>

definition set_activity :: "'p DurationPersons \<Rightarrow> 'p ActivityList \<Rightarrow> 'p DurationPersons" where
  "set_activity self act = self\<lparr>activity := act\<rparr>"

text \<open>
  The two concrete duration conditions. The root class \<^verbatim>\<open>DurationCondition\<close> only
  carries a \<^verbatim>\<open>filter\<close> method and is never placed in a condition list itself.
\<close>

datatype DurationCondition =
    SnapshotCondition date
  | ActiveCondition "date option" "date option"

text \<open>
  \<^verbatim>\<open>modify(self, object)\<close> mutates its target; the model returns the updated target.
  \<^verbatim>\<open>SnapshotCondition.modify\<close> calls \<^verbatim>\<open>object.set_snapshot(self.date)\<close>, and
  \<^verbatim>\<open>ActiveCondition.modify\<close> calls
  \<^verbatim>\<open>object.set_activity(object.activity.active(after, before))\<close>.
\<close>

fun modify :: "DurationCondition \<Rightarrow> 'p DurationPersons \<Rightarrow> 'p DurationPersons" where
  "modify (SnapshotCondition d) obj = set_snapshot obj d"
| "modify (ActiveCondition a b) obj = set_activity obj (active (activity obj) a b)"

text \<open>The loop \<^verbatim>\<open>for condition in conditions: condition.modify(self)\<close>.\<close>

fun modify_all :: "DurationCondition list \<Rightarrow> 'p DurationPersons \<Rightarrow> 'p DurationPersons" where
  "modify_all [] self = self"
| "modify_all (c # cs) self = modify_all cs (modify c self)"

text \<open>
  Reading \<^verbatim>\<open>self.var\<close> on an instance whose \<^verbatim>\<open>var\<close> attribute is still unassigned
  (\<open>None\<close> here) raises \<^verbatim>\<open>AttributeError\<close>.
\<close>

definition getattr_var :: "string option \<Rightarrow> error + string" where
  "getattr_var v = (case v of None \<Rightarrow> Inl (AttributeError ''var'') | Some s \<Rightarrow> Inr s)"

text \<open>
  \<^verbatim>\<open>DurationPersons.__init__(self, var, activity, conditions)\<close>. The activity is stored
  first. When \<open>var\<close> is not accepted, the message of the exception to raise is built from
  \<^verbatim>\<open>self.var\<close>, which is assigned only after the check: the attribute is looked up on
  an instance that does not have it yet, and that lookup fails before the \<^verbatim>\<open>raise\<close>.
\<close>

definition DurationPersons_init ::
  "string \<Rightarrow> 'p ActivityList \<Rightarrow> DurationCondition list \<Rightarrow> error + 'p DurationPersons" where
  "DurationPersons_init v act conditions =
     (if v \<notin> {''age'', ''idle''} then
        (case getattr_var None of
           Inl e \<Rightarrow> Inl e
         | Inr s \<Rightarrow> Inl (Exception (''Not a valid variable: '' @ s)))
      else Inr (modify_all conditions \<lparr>activity = act, var = v, snapshot = None\<rparr>))"

text \<open>
  \<^verbatim>\<open>durations(self)\<close> returns the durations and leaves the object as it is: the second
  component is the object after the call. When neither branch on \<^verbatim>\<open>self.var\<close> is
  taken, the local \<^verbatim>\<open>durations\<close> is returned without having been assigned.
\<close>

definition durations ::
  "'p DurationPersons \<Rightarrow> (error + ('p \<times> duration) list) \<times> 'p DurationPersons" where
  "durations self =
     (case (case snapshot self of
              None \<Rightarrow> maxend (activity self)
            | Some s \<Rightarrow> Inr s) of
        Inl e \<Rightarrow> (Inl e, self)
      | Inr snap \<Rightarrow>
          (if var self = ''age'' then (Inr (age (activity self) snap), self)
           else if var self = ''idle'' then (Inr (idle (activity self) snap), self)
           else (Inl (UnboundLocalError ''durations''), self)))"

text \<open>A condition that fixes the snapshot, as opposed to one that narrows the activity.\<close>

fun is_snapshot :: "DurationCondition \<Rightarrow> bool" where
  "is_snapshot (SnapshotCondition d) = True"
| "is_snapshot (ActiveCondition a b) = False"

text \<open>The invariant on the variable of a duration object.\<close>

definition valid_var :: "'p DurationPersons \<Rightarrow> bool" where
  "valid_var self \<longleftrightarrow> var self \<in> {''age'', ''idle''}"

text \<open>
  The intersection of two windows, as the specification words it: the later of the two
  lower bounds and the earlier of the two upper bounds, \<open>None\<close> being unbounded.
\<close>

definition window_max :: "date option \<Rightarrow> date option \<Rightarrow> date option" where
  "window_max a1 a2 =
     (case a1 of None \<Rightarrow> a2
      | Some x \<Rightarrow> (case a2 of None \<Rightarrow> Some x | Some y \<Rightarrow> Some (max x y)))"

definition window_min :: "date option \<Rightarrow> date option \<Rightarrow> date option" where
  "window_min b1 b2 =
     (case b1 of None \<Rightarrow> b2
      | Some x \<Rightarrow> (case b2 of None \<Rightarrow> Some x | Some y \<Rightarrow> Some (min x y)))"

subsection \<open>ActivityPersons\<close>

text \<open>
  The module \<^verbatim>\<open>scm_query\<close> (\<^verbatim>\<open>buildSession\<close>, the session's \<^verbatim>\<open>query()\<close> and the
  builder methods of the query it returns) and the query conditions of module \<^verbatim>\<open>scm\<close>
  (their \<^verbatim>\<open>filter\<close> method) are not part of the sources. They are parameters of the
  model, over any type \<open>'s\<close> of sessions, \<open>'q\<close> of queries and \<open>'c\<close> of query
  conditions, and are taken to return normally.
\<close>

record ('s, 'q, 'c) scm_query =
  buildSession :: "string \<Rightarrow> bool \<Rightarrow> 's"
  session_query :: "'s \<Rightarrow> 'q"
  select_personsdata :: "'q \<Rightarrow> string \<Rightarrow> 'q"
  select_personsdata_uid :: "'q \<Rightarrow> string \<Rightarrow> 'q"
  select_commitsperiod :: "'q \<Rightarrow> 'q"
  group_by_person :: "'q \<Rightarrow> 'q"
  condition_filter :: "'c \<Rightarrow> 'q \<Rightarrow> 'q"

text \<open>The calls made to these collaborators, logged in the order they are made.\<close>

datatype 'c call =
    Call_buildSession string bool
  | Call_session_query
  | Call_select_personsdata string
  | Call_select_personsdata_uid string
  | Call_select_commitsperiod
  | Call_group_by_person
  | Call_filter 'c

record ('s, 'q) ActivityPersons =
  session :: 's
  query :: 'q

text \<open>
  First statement of \<^verbatim>\<open>ActivityPersons.__init__\<close>: the session given is used, else one
  is built from the database url, else the constructor raises.
\<close>

definition get_session ::
  "('s, 'q, 'c) scm_query \<Rightarrow> 's option \<Rightarrow> string option \<Rightarrow> bool \<Rightarrow> 'c call list \<times> (error + 's)" where
  "get_session ops sess database echo =
     (case sess of
        Some s \<Rightarrow> ([], Inr s)
      | None \<Rightarrow>
          (case database of
             Some db \<Rightarrow> ([Call_buildSession db echo], Inr (buildSession ops db echo))
           | None \<Rightarrow>
               ([], Inl (Exception
                  (''ActivityPersons: Either a session or a '' @ ''database must be specified'')))))"

text \<open>The message \<^verbatim>\<open>"ActivityPersons: Unknown variable %s." % var\<close>.\<close>

definition unknown_variable :: "string \<Rightarrow> error" where
  "unknown_variable v = Exception (''ActivityPersons: Unknown variable '' @ v @ ''.'')"

text \<open>Second statement: the role of the persons, from the variable.\<close>

definition persons_of :: "string \<Rightarrow> error + string" where
  "persons_of v =
     (if v \<in> {''list_authors'', ''list_uauthors''} then Inr ''authors''
      else if v \<in> {''list_committers'', ''list_ucommitters''} then Inr ''committers''
      else Inl (unknown_variable v))"

text \<open>Fourth statement: the projection of the persons, raw or by unified identity.\<close>

definition select_persons ::
  "('s, 'q, 'c) scm_query \<Rightarrow> string \<Rightarrow> string \<Rightarrow> 'q \<Rightarrow> 'c call list \<times> (error + 'q)" where
  "select_persons ops v persons q =
     (if v \<in> {''list_authors'', ''list_committers''} then
        ([Call_select_personsdata persons], Inr (select_personsdata ops q persons))
      else if v \<in> {''list_uauthors'', ''list_ucommitters''} then
        ([Call_select_personsdata_uid persons], Inr (select_personsdata_uid ops q persons))
      else ([], Inl (unknown_variable v)))"

text \<open>
  The loop \<^verbatim>\<open>for condition in conditions: self.query = condition.filter(self.query)\<close>.
\<close>

fun filter_conditions ::
  "('s, 'q, 'c) scm_query \<Rightarrow> 'c list \<Rightarrow> 'q \<Rightarrow> 'c call list \<times> 'q" where
  "filter_conditions ops [] q = ([], q)"
| "filter_conditions ops (c # cs) q =
     (case filter_conditions ops cs (condition_filter ops c q) of
        (calls, q') \<Rightarrow> (Call_filter c # calls, q'))"

text \<open>
  \<^verbatim>\<open>ActivityPersons.__init__(self, var, conditions, session, database, echo)\<close>. The
  result is the log of the collaborators' calls, and the error raised or the object built.
\<close>

definition ActivityPersons_init ::
  "('s, 'q, 'c) scm_query \<Rightarrow> string \<Rightarrow> 'c list \<Rightarrow> 's option \<Rightarrow> string option \<Rightarrow> bool
     \<Rightarrow> 'c call list \<times> (error + ('s, 'q) ActivityPersons)" where
  "ActivityPersons_init ops v conditions sess database echo =
     (case get_session ops sess database echo of
        (calls1, Inl e) \<Rightarrow> (calls1, Inl e)
      | (calls1, Inr s) \<Rightarrow>
          (case persons_of v of
             Inl e \<Rightarrow> (calls1, Inl e)
           | Inr persons \<Rightarrow>
               (case select_persons ops v persons (session_query ops s) of
                  (calls2, Inl e) \<Rightarrow> (calls1 @ [Call_session_query] @ calls2, Inl e)
                | (calls2, Inr q) \<Rightarrow>
                    (case filter_conditions ops conditions
                            (group_by_person ops (select_commitsperiod ops q)) of
                       (calls3, q') \<Rightarrow>
                         (calls1 @ [Call_session_query] @ calls2 @
                            [Call_select_commitsperiod, Call_group_by_person] @ calls3,
                          Inr \<lparr>session = s, query = q'\<rparr>)))))"

text \<open>
  The query as the specification words it: the projection of the persons of a role (by
  unified identity or raw), then the period of the commits, then the grouping by person,
  then every condition folded in, in list order.
\<close>

definition spec_query ::
  "('s, 'q, 'c) scm_query \<Rightarrow> 's \<Rightarrow> bool \<Rightarrow> string \<Rightarrow> 'c list \<Rightarrow> 'q" where
  "spec_query ops s unified role conditions =
     foldl (\<lambda>q c. condition_filter ops c q)
       (group_by_person ops (select_commitsperiod ops
          ((if unified then select_personsdata_uid ops else select_personsdata ops)
             (session_query ops s) role)))
       conditions"

text \<open>
  A collaborator for concrete runs: a session is the pair it was built from, and a query
  is the list of the builder calls that made it.
\<close>

definition recording :: "(string \<times> bool, string list, string) scm_query" where
  "recording =
     \<lparr>buildSession = (\<lambda>db echo. (db, echo)),
      session_query = (\<lambda>s. [''query'']),
      select_personsdata = (\<lambda>q persons. q @ [''select_personsdata '' @ persons]),
      select_personsdata_uid = (\<lambda>q persons. q @ [''select_personsdata_uid '' @ persons]),
      select_commitsperiod = (\<lambda>q. q @ [''select_commitsperiod'']),
      group_by_person = (\<lambda>q. q @ [''group_by_person'']),
      condition_filter = (\<lambda>c q. q @ [''filter '' @ c])\<rparr>"

section \<open>Properties\<close>

subsection \<open>Frame lemmas of the duration conditions\<close>

lemma modify_var [simp]: "var (modify c obj) = var obj"
  by (cases c) (simp_all add: set_snapshot_def set_activity_def)

lemma modify_all_var [simp]: "var (modify_all cs obj) = var obj"
  by (induction cs arbitrary: obj) simp_all

lemma modify_all_append: "modify_all (cs @ ds) obj = modify_all ds (modify_all cs obj)"
  by (induction cs arbitrary: obj) simp_all

lemma modify_snapshot_other: "\<not> is_snapshot c \<Longrightarrow> snapshot (modify c obj) = snapshot obj"
  by (cases c) (simp_all add: set_activity_def)

lemma modify_all_snapshot_other:
  "\<forall>c \<in> set cs. \<not> is_snapshot c \<Longrightarrow> snapshot (modify_all cs obj) = snapshot obj"
  by (induction cs arbitrary: obj) (simp_all add: modify_snapshot_other)

lemma durations_snapshot_set:
  "snapshot self = Some T \<Longrightarrow>
     fst (durations self) =
       (if var self = ''age'' then Inr (age (activity self) T)
        else if var self = ''idle'' then Inr (idle (activity self) T)
        else Inl (UnboundLocalError ''durations''))"
  by (simp add: durations_def)

lemma durations_object [simp]: "snd (durations self) = self"
  by (simp add: durations_def split: option.split sum.split)

subsection \<open>Durations from the implicit and from the explicit snapshot\<close>

text \<open>
  C1. For an object whose snapshot is unset and whose activity list is not empty,
  \<open>maxend\<close> of the activity list returns a time \<open>m\<close>, and \<open>durations\<close> returns
  \<open>age\<close> of the activity list at \<open>m\<close> when the variable is \<open>age\<close>, and
  \<open>idle\<close> of the activity list at \<open>m\<close> when the variable is \<open>idle\<close>.
\<close>

theorem durations_no_snapshot:
  assumes "snapshot self = None" and "activity self \<noteq> []"
  shows "\<exists>m. maxend (activity self) = Inr m \<and>
           (var self = ''age'' \<longrightarrow> fst (durations self) = Inr (age (activity self) m)) \<and>
           (var self = ''idle'' \<longrightarrow> fst (durations self) = Inr (idle (activity self) m))"
proof -
  from assms(2) obtain m where m: "maxend (activity self) = Inr m"
    by (auto simp: maxend_def)
  with assms(1) show ?thesis
    by (auto simp: durations_def)
qed

theorem durations_no_snapshot_witness:
  "snapshot \<lparr>activity = [(''Alice'', [1, 6]), (''Bob'', [3])], var = ''age'', snapshot = None\<rparr>
     = None \<and>
   activity \<lparr>activity = [(''Alice'', [1, 6]), (''Bob'', [3])], var = ''age'', snapshot = None\<rparr>
     \<noteq> [] \<and>
   maxend [(''Alice'', [1, 6]), (''Bob'', [3])] = Inr 6 \<and>
   fst (durations
         \<lparr>activity = [(''Alice'', [1, 6]), (''Bob'', [3])], var = ''age'', snapshot = None\<rparr>)
     = Inr [(''Alice'', 5), (''Bob'', 3)]"
  using durations_no_snapshot
    [of "\<lparr>activity = [(''Alice'', [1, 6]), (''Bob'', [3])], var = ''age'', snapshot = None\<rparr>"]
  by (simp add: maxend_def age_def)

text \<open>
  C2. For an object constructed from a condition list that holds \<open>SnapshotCondition T\<close>
  with no snapshot condition after it, the snapshot is \<open>T\<close> and \<open>durations\<close> returns
  \<open>age\<close> of the activity list at \<open>T\<close> when the variable is \<open>age\<close>, and \<open>idle\<close>
  of the activity list at \<open>T\<close> when it is \<open>idle\<close>, whatever \<open>maxend\<close> of the
  activity list is (it may even fail).
\<close>

theorem durations_explicit_snapshot:
  assumes "DurationPersons_init v act conditions = Inr obj"
    and "conditions = pre @ SnapshotCondition T # post"
    and "\<forall>c \<in> set post. \<not> is_snapshot c"
  shows "snapshot obj = Some T \<and>
         (v = ''age'' \<longrightarrow> fst (durations obj) = Inr (age (activity obj) T)) \<and>
         (v = ''idle'' \<longrightarrow> fst (durations obj) = Inr (idle (activity obj) T))"
proof -
  let ?new = "\<lparr>activity = act, var = v, snapshot = None\<rparr>"
  from assms(1) have obj: "obj = modify_all conditions ?new"
    by (simp add: DurationPersons_init_def getattr_var_def split: if_splits)
  have "obj = modify_all post (set_snapshot (modify_all pre ?new) T)"
    unfolding obj assms(2) by (simp add: modify_all_append)
  with assms(3) have snap: "snapshot obj = Some T"
    by (simp add: modify_all_snapshot_other set_snapshot_def)
  have "var obj = v"
    unfolding obj by simp
  with snap show ?thesis
    by (simp add: durations_snapshot_set)
qed

theorem durations_explicit_snapshot_witness:
  "DurationPersons_init ''idle'' [(''Alice'', [1, 6]), (''Bob'', [3])]
       [ActiveCondition (Some 4) None, SnapshotCondition 20, ActiveCondition None (Some 5)]
     = Inr \<lparr>activity = [(''Alice'', [1, 6])], var = ''idle'', snapshot = Some 20\<rparr> \<and>
   [ActiveCondition (Some 4) None, SnapshotCondition 20, ActiveCondition None (Some 5)]
     = [ActiveCondition (Some 4) None] @ SnapshotCondition 20 # [ActiveCondition None (Some 5)] \<and>
   \<not> is_snapshot (ActiveCondition None (Some 5)) \<and>
   fst (durations \<lparr>activity = [(''Alice'', [1, 6])], var = ''idle'', snapshot = Some 20\<rparr>)
     = Inr [(''Alice'', 14)]"
proof -
  have init: "DurationPersons_init ''idle'' [(''Alice'', [1, 6]), (''Bob'', [3])]
       [ActiveCondition (Some 4) None, SnapshotCondition 20, ActiveCondition None (Some 5)]
     = Inr \<lparr>activity = [(''Alice'', [1, 6::int])], var = ''idle'', snapshot = Some 20\<rparr>"
    by (simp add: DurationPersons_init_def set_activity_def set_snapshot_def active_def
        in_window_def)
  have split: "[ActiveCondition (Some 4) None, SnapshotCondition 20, ActiveCondition None (Some 5)]
     = [ActiveCondition (Some 4) None] @ SnapshotCondition 20 # [ActiveCondition None (Some 5)]"
    by simp
  have later: "\<forall>c \<in> set [ActiveCondition None (Some 5)]. \<not> is_snapshot c"
    by simp
  from durations_explicit_snapshot [OF init split later] init show ?thesis
    by (simp add: idle_def)
qed

text \<open>
  C8. \<open>durations\<close> on an object with no snapshot leaves the snapshot unset: the time it
  derived from \<open>maxend\<close> is not stored. After \<open>set_activity\<close> with a non-empty
  list \<open>L2\<close>, a second call therefore takes its reference time from \<open>maxend L2\<close>.
  The run below has reference time 6 in the first call and 9 in the second.
\<close>

theorem durations_leaves_snapshot_unset:
  assumes "snapshot self = None"
  shows "snapshot (snd (durations self)) = None \<and>
         (L2 \<noteq> [] \<longrightarrow>
            (\<exists>m2. maxend L2 = Inr m2 \<and>
               (var self = ''age'' \<longrightarrow>
                  fst (durations (set_activity (snd (durations self)) L2)) = Inr (age L2 m2)) \<and>
               (var self = ''idle'' \<longrightarrow>
                  fst (durations (set_activity (snd (durations self)) L2)) = Inr (idle L2 m2))))"
proof -
  have same: "snd (durations self) = self"
    by (rule durations_object)
  have "fst (durations (set_activity self L2)) =
          (if var self = ''age'' then Inr (age L2 (Max (set (concat (map snd L2)))))
           else if var self = ''idle'' then Inr (idle L2 (Max (set (concat (map snd L2)))))
           else Inl (UnboundLocalError ''durations''))" if "L2 \<noteq> []"
    using that assms by (simp add: durations_def set_activity_def maxend_def)
  then show ?thesis
    unfolding same using assms by (simp add: maxend_def)
qed

theorem durations_leaves_snapshot_unset_witness:
  "snapshot \<lparr>activity = [(''Alice'', [1, 6])], var = ''age'', snapshot = None\<rparr> = None \<and>
   [(''Alice'', [1, 6]), (''Bob'', [3, 9])] \<noteq> [] \<and>
   snapshot (snd (durations \<lparr>activity = [(''Alice'', [1, 6])], var = ''age'', snapshot = None\<rparr>))
     = None \<and>
   maxend [(''Alice'', [1, 6])] = Inr 6 \<and>
   fst (durations \<lparr>activity = [(''Alice'', [1, 6])], var = ''age'', snapshot = None\<rparr>)
     = Inr [(''Alice'', 5)] \<and>
   maxend [(''Alice'', [1, 6]), (''Bob'', [3, 9])] = Inr 9 \<and>
   fst (durations (set_activity
          (snd (durations \<lparr>activity = [(''Alice'', [1, 6])], var = ''age'', snapshot = None\<rparr>))
          [(''Alice'', [1, 6]), (''Bob'', [3, 9])]))
     = Inr [(''Alice'', 8), (''Bob'', 6)]"
proof -
  let ?self = "\<lparr>activity = [(''Alice'', [1, 6::int])], var = ''age'', snapshot = None\<rparr>"
  let ?L2 = "[(''Alice'', [1, 6::int]), (''Bob'', [3, 9])]"
  have m2: "maxend ?L2 = Inr 9"
    by (simp add: maxend_def)
  have first: "fst (durations ?self) = Inr [(''Alice'', 5)]"
    by (simp add: durations_def maxend_def age_def)
  have "snapshot ?self = None"
    by simp
  from durations_leaves_snapshot_unset [OF this, of ?L2] m2 first show ?thesis
    by (simp add: maxend_def age_def)
qed

subsection \<open>Construction of a duration object\<close>

text \<open>
  C4. When the variable is neither \<open>age\<close> nor \<open>idle\<close>, the constructor does fail, but
  with the \<open>AttributeError\<close> of the lookup of \<^verbatim>\<open>self.var\<close>, and not with the
  exception whose message names the variable.
\<close>

theorem init_invalid_var:
  "v \<notin> {''age'', ''idle''} \<Longrightarrow>
     DurationPersons_init v act conditions = Inl (AttributeError ''var'') \<and>
     DurationPersons_init v act conditions \<noteq> Inl (Exception (''Not a valid variable: '' @ v))"
  by (simp add: DurationPersons_init_def getattr_var_def)

theorem init_invalid_var_witness:
  "''length'' \<notin> {''age'', ''idle''} \<and>
   DurationPersons_init ''length'' [(''Alice'', [1, 6])] [] = Inl (AttributeError ''var'') \<and>
   DurationPersons_init ''length'' [(''Alice'', [1, 6])] []
     \<noteq> Inl (Exception ''Not a valid variable: length'')"
  using init_invalid_var [of "''length''" "[(''Alice'', [1, 6])]" "[]"]
  by simp

text \<open>
  C10, as stated, fails in its last part: a branch of \<open>durations\<close> is not always
  taken. An object built with an active condition that nobody satisfies has an empty
  activity list and no snapshot; \<open>maxend\<close> fails on it, and \<open>durations\<close> ends with
  that failure before it looks at the variable.
\<close>

theorem durations_branch_counterexample:
  "DurationPersons_init ''age'' [(''Alice'', [1, 6])] [ActiveCondition (Some 10) None]
     = Inr \<lparr>activity = [], var = ''age'', snapshot = None\<rparr> \<and>
   valid_var \<lparr>activity = ([] :: string ActivityList), var = ''age'', snapshot = None\<rparr> \<and>
   fst (durations \<lparr>activity = ([] :: string ActivityList), var = ''age'', snapshot = None\<rparr>)
     = Inl EmptyDomainError \<and>
   (\<forall>d. fst (durations \<lparr>activity = ([] :: string ActivityList), var = ''age'', snapshot = None\<rparr>)
          \<noteq> Inr (age [] d)) \<and>
   (\<forall>d. fst (durations \<lparr>activity = ([] :: string ActivityList), var = ''age'', snapshot = None\<rparr>)
          \<noteq> Inr (idle [] d))"
  by (simp add: DurationPersons_init_def set_activity_def active_def in_window_def
      valid_var_def durations_def maxend_def)

text \<open>
  C10, amended. An object that the constructor returns has its variable among \<open>age\<close>
  and \<open>idle\<close>; \<open>set_snapshot\<close>, \<open>set_activity\<close>, the conditions and
  \<open>durations\<close> keep it so. On such an object, whenever the reference time resolves (a
  snapshot is set, or the activity list is not empty and \<open>maxend\<close> gives it),
  \<open>durations\<close> takes exactly one of its two branches: it returns the \<open>age\<close> mapping
  at the reference time when the variable is \<open>age\<close>, and the \<open>idle\<close> mapping
  otherwise. With no snapshot and an empty activity list it fails with the empty-domain
  error of \<open>maxend\<close>. The return of the unassigned local never happens.
\<close>

theorem init_var_invariant:
  "(DurationPersons_init v act conditions = Inr obj \<longrightarrow> valid_var obj) \<and>
   (valid_var self \<longrightarrow>
      valid_var (set_snapshot self t) \<and> valid_var (set_activity self L) \<and>
      valid_var (modify c self) \<and> valid_var (modify_all cs self) \<and>
      valid_var (snd (durations self))) \<and>
   (valid_var self \<longrightarrow>
      (var self = ''age'') \<noteq> (var self = ''idle'') \<and>
      (\<forall>T. snapshot self = Some T \<longrightarrow>
         fst (durations self) =
           (if var self = ''age'' then Inr (age (activity self) T)
            else Inr (idle (activity self) T))) \<and>
      (snapshot self = None \<and> activity self \<noteq> [] \<longrightarrow>
         (\<exists>m. maxend (activity self) = Inr m \<and>
            fst (durations self) =
              (if var self = ''age'' then Inr (age (activity self) m)
               else Inr (idle (activity self) m)))) \<and>
      (snapshot self = None \<and> activity self = [] \<longrightarrow>
         fst (durations self) = Inl EmptyDomainError) \<and>
      (\<forall>x. fst (durations self) \<noteq> Inl (UnboundLocalError x)))"
proof -
  have built: "valid_var obj" if "DurationPersons_init v act conditions = Inr obj"
    using that
    by (auto simp: DurationPersons_init_def getattr_var_def valid_var_def split: if_splits)
  have kept: "valid_var (set_snapshot self t) \<and> valid_var (set_activity self L) \<and>
      valid_var (modify c self) \<and> valid_var (modify_all cs self) \<and>
      valid_var (snd (durations self))" if "valid_var self"
    using that by (simp add: valid_var_def set_snapshot_def set_activity_def)
  have one: "(var self = ''age'') \<noteq> (var self = ''idle'')" if "valid_var self"
    using that by (auto simp: valid_var_def)
  have explicit: "fst (durations self) =
      (if var self = ''age'' then Inr (age (activity self) T)
       else Inr (idle (activity self) T))" if "valid_var self" and "snapshot self = Some T" for T
    using that by (auto simp: durations_def valid_var_def)
  have implicit: "\<exists>m. maxend (activity self) = Inr m \<and>
      fst (durations self) =
        (if var self = ''age'' then Inr (age (activity self) m)
         else Inr (idle (activity self) m))"
    if "valid_var self" and "snapshot self = None" and "activity self \<noteq> []"
    using that by (auto simp: durations_def valid_var_def maxend_def)
  have empty: "fst (durations self) = Inl EmptyDomainError"
    if "snapshot self = None" and "activity self = []"
    using that by (simp add: durations_def maxend_def)
  have bound: "fst (durations self) \<noteq> Inl (UnboundLocalError x)" if "valid_var self" for x
    using that
    by (auto simp: durations_def valid_var_def maxend_def split: option.split sum.split)
  from built kept one explicit implicit empty bound show ?thesis
    by blast
qed

theorem init_var_invariant_witness:
  "DurationPersons_init ''idle'' [(''Alice'', [1, 6])] [SnapshotCondition 20]
     = Inr \<lparr>activity = [(''Alice'', [1, 6])], var = ''idle'', snapshot = Some 20\<rparr> \<and>
   valid_var \<lparr>activity = [(''Alice'', [1, 6])], var = ''idle'', snapshot = Some 20\<rparr> \<and>
   valid_var (set_snapshot \<lparr>activity = [(''Alice'', [1, 6])], var = ''idle'', snapshot = Some 20\<rparr> 7) \<and>
   valid_var (modify (ActiveCondition (Some 2) None)
                \<lparr>activity = [(''Alice'', [1, 6])], var = ''idle'', snapshot = Some 20\<rparr>) \<and>
   fst (durations \<lparr>activity = [(''Alice'', [1, 6])], var = ''idle'', snapshot = Some 20\<rparr>)
     = Inr [(''Alice'', 14)] \<and>
   valid_var \<lparr>activity = [(''Alice'', [1, 6]), (''Bob'', [3])], var = ''age'', snapshot = None\<rparr> \<and>
   maxend [(''Alice'', [1, 6]), (''Bob'', [3])] = Inr 6 \<and>
   fst (durations
         \<lparr>activity = [(''Alice'', [1, 6]), (''Bob'', [3])], var = ''age'', snapshot = None\<rparr>)
     = Inr [(''Alice'', 5), (''Bob'', 3)]"
proof -
  let ?obj = "\<lparr>activity = [(''Alice'', [1, 6::int])], var = ''idle'', snapshot = Some 20\<rparr>"
  let ?obj2 =
    "\<lparr>activity = [(''Alice'', [1, 6::int]), (''Bob'', [3])], var = ''age'', snapshot = None\<rparr>"
  have init: "DurationPersons_init ''idle'' [(''Alice'', [1, 6])] [SnapshotCondition 20] = Inr ?obj"
    by (simp add: DurationPersons_init_def set_snapshot_def)
  have valid2: "valid_var ?obj2"
    by (simp add: valid_var_def)
  have m: "maxend (activity ?obj2) = Inr 6"
    by (simp add: maxend_def)
  from init_var_invariant
         [of "''idle''" "[(''Alice'', [1, 6])]" "[SnapshotCondition 20]" ?obj ?obj 7 "[]"
             "ActiveCondition (Some 2) None" "[]"]
       init
  have first: "valid_var ?obj \<and> valid_var (set_snapshot ?obj 7) \<and>
      valid_var (modify (ActiveCondition (Some 2) None) ?obj) \<and>
      fst (durations ?obj) = Inr (idle (activity ?obj) 20)"
    by simp
  from init_var_invariant
         [of "''idle''" "[(''Alice'', [1, 6])]" "[SnapshotCondition 20]" ?obj ?obj2 7 "[]"
             "ActiveCondition (Some 2) None" "[]"]
       valid2 m
  have second: "fst (durations ?obj2) = Inr (age (activity ?obj2) 6)"
    by simp
  from init first second valid2 m show ?thesis
    by (simp add: idle_def age_def)
qed

subsection \<open>What the conditions and the setters change\<close>

text \<open>
  C9. \<open>SnapshotCondition.modify\<close> only sets the snapshot of its target: activity and
  variable stay. \<open>ActiveCondition.modify\<close> only replaces the activity: snapshot and
  variable stay. Neither the setters, nor a condition, nor a list of conditions, nor
  \<open>durations\<close> changes the variable.
\<close>

theorem conditions_frame:
  "modify (SnapshotCondition d) obj = obj\<lparr>snapshot := Some d\<rparr> \<and>
   activity (modify (SnapshotCondition d) obj) = activity obj \<and>
   var (modify (SnapshotCondition d) obj) = var obj \<and>
   modify (ActiveCondition a b) obj = obj\<lparr>activity := active (activity obj) a b\<rparr> \<and>
   snapshot (modify (ActiveCondition a b) obj) = snapshot obj \<and>
   var (modify (ActiveCondition a b) obj) = var obj \<and>
   var (set_snapshot obj t) = var obj \<and>
   var (set_activity obj L) = var obj \<and>
   var (modify c obj) = var obj \<and>
   var (modify_all cs obj) = var obj \<and>
   var (snd (durations obj)) = var obj"
  by (simp add: set_snapshot_def set_activity_def)

theorem conditions_frame_witness:
  "modify (SnapshotCondition 20)
     \<lparr>activity = [(''Alice'', [1, 6]), (''Bob'', [3])], var = ''age'', snapshot = None\<rparr>
     = \<lparr>activity = [(''Alice'', [1, 6]), (''Bob'', [3])], var = ''age'', snapshot = Some 20\<rparr> \<and>
   modify (ActiveCondition (Some 4) None)
     \<lparr>activity = [(''Alice'', [1, 6]), (''Bob'', [3])], var = ''age'', snapshot = None\<rparr>
     = \<lparr>activity = [(''Alice'', [1, 6])], var = ''age'', snapshot = None\<rparr>"
  using conditions_frame
    [of 20 "\<lparr>activity = [(''Alice'', [1, 6]), (''Bob'', [3])], var = ''age'', snapshot = None\<rparr>"
        "Some 4" None]
  by (simp add: active_def in_window_def)

subsection \<open>Two active conditions in sequence\<close>

lemma in_window_intersection:
  "in_window (window_max a1 a2) (window_min b1 b2) t \<longleftrightarrow>
     in_window a1 b1 t \<and> in_window a2 b2 t"
  by (auto simp: in_window_def window_max_def window_min_def split: option.splits)

lemma filter_eq_iff_pointwise:
  "filter P xs = filter Q xs \<longleftrightarrow> (\<forall>x \<in> set xs. P x = Q x)"
proof
  assume "filter P xs = filter Q xs"
  then have "set (filter P xs) = set (filter Q xs)"
    by simp
  then show "\<forall>x \<in> set xs. P x = Q x"
    by auto
next
  assume "\<forall>x \<in> set xs. P x = Q x"
  then show "filter P xs = filter Q xs"
    by (simp cong: filter_cong)
qed

text \<open>
  Narrowing twice keeps the persons with a timestamp in the first window and a timestamp
  in the second one, each with all their timestamps.
\<close>

lemma active_twice:
  "active (active L a1 b1) a2 b2 =
     filter (\<lambda>(p, tss). (\<exists>t \<in> set tss. in_window a1 b1 t) \<and>
                          (\<exists>t \<in> set tss. in_window a2 b2 t)) L"
  by (simp add: active_def case_prod_unfold conj_commute)

lemma active_intersection:
  "active L (window_max a1 a2) (window_min b1 b2) =
     filter (\<lambda>(p, tss). \<exists>t \<in> set tss. in_window a1 b1 t \<and> in_window a2 b2 t) L"
  by (simp add: active_def in_window_intersection)

text \<open>
  C3, as stated, fails: Alice has a contribution at 1, inside the window from 0 to 5, and
  one at 8, inside the window from 3 to 10, but none inside their intersection, from 3 to
  5. The two conditions in sequence keep her; the condition of the intersection drops her.
\<close>

theorem active_twice_counterexample:
  "activity (modify_all [ActiveCondition (Some 0) (Some 5), ActiveCondition (Some 3) (Some 10)]
       \<lparr>activity = [(''Alice'', [1, 8])], var = ''age'', snapshot = None\<rparr>)
   \<noteq> activity (modify_all
         [ActiveCondition (window_max (Some 0) (Some 3)) (window_min (Some 5) (Some 10))]
       \<lparr>activity = [(''Alice'', [1, 8])], var = ''age'', snapshot = None\<rparr>)"
  by (simp add: set_activity_def active_def in_window_def window_max_def window_min_def)

text \<open>
  C3, amended. Two active conditions in sequence give the same activity list as the one
  condition of the intersected window exactly when every person of the list who has a
  timestamp in each of the two windows also has one timestamp that lies in both.
\<close>

theorem active_twice_intersection:
  "activity (modify_all [ActiveCondition a1 b1, ActiveCondition a2 b2] obj) =
   activity (modify_all [ActiveCondition (window_max a1 a2) (window_min b1 b2)] obj)
   \<longleftrightarrow>
   (\<forall>(p, tss) \<in> set (activity obj).
      (\<exists>t \<in> set tss. in_window a1 b1 t) \<and> (\<exists>t \<in> set tss. in_window a2 b2 t) \<longrightarrow>
      (\<exists>t \<in> set tss. in_window a1 b1 t \<and> in_window a2 b2 t))"
proof -
  have seq: "activity (modify_all [ActiveCondition a1 b1, ActiveCondition a2 b2] obj) =
        filter (\<lambda>(p, tss). (\<exists>t \<in> set tss. in_window a1 b1 t) \<and>
                             (\<exists>t \<in> set tss. in_window a2 b2 t))
          (activity obj)"
    by (simp add: set_activity_def active_twice)
  have one: "activity (modify_all [ActiveCondition (window_max a1 a2) (window_min b1 b2)] obj) =
        filter (\<lambda>(p, tss). \<exists>t \<in> set tss. in_window a1 b1 t \<and> in_window a2 b2 t)
          (activity obj)"
    by (simp add: set_activity_def active_intersection)
  show ?thesis
    unfolding seq one filter_eq_iff_pointwise by fastforce
qed

theorem active_twice_intersection_witness:
  "(\<exists>t \<in> set [1, 4]. in_window (Some 0) (Some 5) t \<and> in_window (Some 3) (Some 10) t) \<and>
   \<not> (\<exists>t \<in> set [8]. in_window (Some 0) (Some 5) t) \<and>
   activity (modify_all [ActiveCondition (Some 0) (Some 5), ActiveCondition (Some 3) (Some 10)]
       \<lparr>activity = [(''Alice'', [1, 4]), (''Bob'', [8])], var = ''age'', snapshot = None\<rparr>)
     = [(''Alice'', [1, 4])] \<and>
   activity (modify_all
         [ActiveCondition (window_max (Some 0) (Some 3)) (window_min (Some 5) (Some 10))]
       \<lparr>activity = [(''Alice'', [1, 4]), (''Bob'', [8])], var = ''age'', snapshot = None\<rparr>)
     = [(''Alice'', [1, 4])]"
proof -
  let ?obj =
    "\<lparr>activity = [(''Alice'', [1, 4]), (''Bob'', [8::int])], var = ''age'', snapshot = None\<rparr>"
  have hyp: "\<forall>(p, tss) \<in> set (activity ?obj).
      (\<exists>t \<in> set tss. in_window (Some 0) (Some 5) t) \<and>
      (\<exists>t \<in> set tss. in_window (Some 3) (Some 10) t) \<longrightarrow>
      (\<exists>t \<in> set tss. in_window (Some 0) (Some 5) t \<and> in_window (Some 3) (Some 10) t)"
    by (simp add: in_window_def)
  have one: "activity (modify_all
        [ActiveCondition (window_max (Some 0) (Some 3)) (window_min (Some 5) (Some 10))] ?obj)
     = [(''Alice'', [1, 4])]"
    by (simp add: set_activity_def active_def in_window_def window_max_def window_min_def)
  have "activity (modify_all
        [ActiveCondition (Some 0) (Some 5), ActiveCondition (Some 3) (Some 10)] ?obj)
     = [(''Alice'', [1, 4])]"
    using iffD2 [OF active_twice_intersection [of "Some 0" "Some 5" "Some 3" "Some 10" ?obj] hyp]
      one
    by simp
  with one show ?thesis
    by (simp add: in_window_def)
qed

subsection \<open>Construction of an activity object\<close>

lemma filter_conditions_eq:
  "filter_conditions ops cs q =
     (map Call_filter cs, foldl (\<lambda>q c. condition_filter ops c q) q cs)"
  by (induction cs arbitrary: q) simp_all

lemma persons_of_unknown:
  "v \<notin> {''list_authors'', ''list_committers'', ''list_uauthors'', ''list_ucommitters''} \<Longrightarrow>
     persons_of v = Inl (unknown_variable v)"
  by (simp add: persons_of_def)

text \<open>
  C6. With neither a session nor a database, the constructor raises the exception that
  asks for one of them, whatever the variable, the conditions and \<open>echo\<close> are, and calls
  no collaborator.
\<close>

theorem no_session_no_database:
  "ActivityPersons_init ops v conditions None None echo =
     ([], Inl (Exception ''ActivityPersons: Either a session or a database must be specified''))"
  by (simp add: ActivityPersons_init_def get_session_def)

theorem no_session_no_database_witness:
  "ActivityPersons_init recording ''list_authors'' [''period'', ''nomerges''] None None True =
     ([], Inl (Exception ''ActivityPersons: Either a session or a database must be specified''))"
  using no_session_no_database [of recording "''list_authors''" "[''period'', ''nomerges'']" True]
  by simp

text \<open>
  C5, as stated, fails on both counts. With a database url and no session, the session is
  built before the variable is looked at, so the unknown variable is reported after the
  call of \<open>buildSession\<close>. With neither of them, the exception raised is the one that
  asks for a session or a database, not the one about the variable.
\<close>

theorem unknown_variable_counterexample:
  "''list_foo'' \<notin> {''list_authors'', ''list_committers'', ''list_uauthors'', ''list_ucommitters''} \<and>
   ActivityPersons_init recording ''list_foo'' [] None (Some ''mysql://localhost/cvsanaly'') False =
     ([Call_buildSession ''mysql://localhost/cvsanaly'' False],
      Inl (unknown_variable ''list_foo'')) \<and>
   ActivityPersons_init recording ''list_foo'' [] None None False =
     ([], Inl (Exception ''ActivityPersons: Either a session or a database must be specified'')) \<and>
   Exception ''ActivityPersons: Either a session or a database must be specified''
     \<noteq> unknown_variable ''list_foo''"
  by (simp add: ActivityPersons_init_def get_session_def persons_of_def unknown_variable_def)

text \<open>
  C5, amended. For a variable outside the four recognised ones: when a session is given,
  the constructor raises the exception naming the unknown variable without any call to a
  collaborator; when no session but a database url is given, it raises the same exception
  after the one call that builds the session, and before any query is built.
\<close>

theorem unknown_variable_raised:
  assumes "v \<notin> {''list_authors'', ''list_committers'', ''list_uauthors'', ''list_ucommitters''}"
  shows "ActivityPersons_init ops v conditions (Some s) database echo =
           ([], Inl (unknown_variable v)) \<and>
         ActivityPersons_init ops v conditions None (Some db) echo =
           ([Call_buildSession db echo], Inl (unknown_variable v))"
  using persons_of_unknown [OF assms]
  by (simp add: ActivityPersons_init_def get_session_def)

theorem unknown_variable_raised_witness:
  "''length'' \<notin> {''list_authors'', ''list_committers'', ''list_uauthors'', ''list_ucommitters''} \<and>
   ActivityPersons_init recording ''length'' [''nomerges''] (Some (''db'', False)) None False =
     ([], Inl (Exception ''ActivityPersons: Unknown variable length.'')) \<and>
   ActivityPersons_init recording ''length'' [''nomerges''] None (Some ''db'') True =
     ([Call_buildSession ''db'' True], Inl (Exception ''ActivityPersons: Unknown variable length.''))"
  using unknown_variable_raised
          [of "''length''" recording "[''nomerges'']" "(''db'', False)" None False]
        unknown_variable_raised
          [of "''length''" recording "[''nomerges'']" "(''db'', False)" None True "''db''"]
  by (simp add: unknown_variable_def)

text \<open>
  C7. With a session \<open>s\<close> (given, or built from the database url when none is given),
  the constructor succeeds on each recognised variable, and the query of the object is the
  one the specification describes: the raw projection of the authors for
  \<open>list_authors\<close>, of the committers for \<open>list_committers\<close>, the projection by unified
  identity of the authors for \<open>list_uauthors\<close>, of the committers for
  \<open>list_ucommitters\<close>; then the period of the commits and the grouping by person; then
  the filter of every condition, in list order, each applied to the query before it.
\<close>

theorem init_builds_query:
  assumes "sess = Some s \<or> (sess = None \<and> database = Some db \<and> s = buildSession ops db echo)"
  shows "(v = ''list_authors'' \<longrightarrow>
            snd (ActivityPersons_init ops v conditions sess database echo) =
              Inr \<lparr>session = s, query = spec_query ops s False ''authors'' conditions\<rparr>) \<and>
         (v = ''list_committers'' \<longrightarrow>
            snd (ActivityPersons_init ops v conditions sess database echo) =
              Inr \<lparr>session = s, query = spec_query ops s False ''committers'' conditions\<rparr>) \<and>
         (v = ''list_uauthors'' \<longrightarrow>
            snd (ActivityPersons_init ops v conditions sess database echo) =
              Inr \<lparr>session = s, query = spec_query ops s True ''authors'' conditions\<rparr>) \<and>
         (v = ''list_ucommitters'' \<longrightarrow>
            snd (ActivityPersons_init ops v conditions sess database echo) =
              Inr \<lparr>session = s, query = spec_query ops s True ''committers'' conditions\<rparr>)"
proof -
  from assms obtain calls where sess: "get_session ops sess database echo = (calls, Inr s)"
    by (auto simp: get_session_def)
  show ?thesis
    by (simp add: ActivityPersons_init_def sess persons_of_def select_persons_def
        filter_conditions_eq spec_query_def)
qed

theorem init_builds_query_witness:
  "snd (ActivityPersons_init recording ''list_ucommitters'' [''period'', ''nomerges''] None
          (Some ''db'') False) =
     Inr \<lparr>session = (''db'', False),
          query = [''query'', ''select_personsdata_uid committers'', ''select_commitsperiod'',
                   ''group_by_person'', ''filter period'', ''filter nomerges'']\<rparr>"
proof -
  have "None = Some (''db'', False) \<or>
        ((None :: (string \<times> bool) option) = None \<and> Some ''db'' = Some ''db'' \<and>
         (''db'', False) = buildSession recording ''db'' False)"
    by (simp add: recording_def)
  from init_builds_query [OF this, of "''list_ucommitters''" "[''period'', ''nomerges'']"]
  show ?thesis
    by (simp add: spec_query_def recording_def)
qed

end
